theory Spec2Isabelle
  imports Complex_Main
begin

section \<open>The textstat helper of the English MCP server\<close>

text \<open>
  The program is \<^verbatim>\<open>src/utils/textstat-helper.py\<close>: it decodes one JSON document from
  standard input, reads its field \<^verbatim>\<open>text\<close>, asks the \<^verbatim>\<open>textstat\<close> library for a fixed
  list of readability metrics and writes them as one JSON object to standard output; every
  exception is turned into an error object and exit status 1.

  Three parts of a run are not code of the repository: the decoder \<^verbatim>\<open>json.load\<close> of the
  standard library, the metric functions of the third-party package \<^verbatim>\<open>textstat\<close>, and the
  limits of the interpreter that the encoder \<^verbatim>\<open>json.dump\<close> can run into. They are parameters
  of the model. What the first two may do is fixed by their types only: each either raises an
  exception of class \<^verbatim>\<open>Exception\<close> or returns a Python value.
\<close>

subsection \<open>Python values\<close>

text \<open>
  A Python \<^verbatim>\<open>str\<close> is a sequence of code points. The literals of the source are written
  as Isabelle strings and injected by \<open>py\<close>.
\<close>

type_synonym pystr = "nat list"

definition py :: "string \<Rightarrow> pystr" where
  "py s = map of_char s"

text \<open>
  A \<^verbatim>\<open>float\<close> is modelled by the rational number it denotes, or one of the three
  non-finite values; rounding to binary64 is not modelled, and \<^verbatim>\<open>-0.0\<close> is \<open>Finite 0\<close>.
\<close>

datatype pyfloat = Finite rat | Infinity | NegInfinity | NaN

text \<open>The values \<^verbatim>\<open>json.load\<close> returns. A \<^verbatim>\<open>dict\<close> keeps its keys in insertion order, so
  it is an association list.\<close>

datatype pyval =
    PNone
  | PBool bool
  | PInt int
  | PFloat pyfloat
  | PStr pystr
  | PList "pyval list"
  | PDict "(pystr \<times> pyval) list"

text \<open>\<^verbatim>\<open>not x\<close> is \<open>\<not> truthy x\<close>.\<close>

fun truthy :: "pyval \<Rightarrow> bool" where
  "truthy PNone = False"
| "truthy (PBool b) = b"
| "truthy (PInt i) = (i \<noteq> 0)"
| "truthy (PFloat f) = (f \<noteq> Finite 0)"
| "truthy (PStr s) = (s \<noteq> [])"
| "truthy (PList xs) = (xs \<noteq> [])"
| "truthy (PDict kvs) = (kvs \<noteq> [])"

text \<open>\<^verbatim>\<open>type(x).__name__\<close>\<close>

fun type_name :: "pyval \<Rightarrow> pystr" where
  "type_name PNone = py ''NoneType''"
| "type_name (PBool b) = py ''bool''"
| "type_name (PInt i) = py ''int''"
| "type_name (PFloat f) = py ''float''"
| "type_name (PStr s) = py ''str''"
| "type_name (PList xs) = py ''list''"
| "type_name (PDict kvs) = py ''dict''"

subsection \<open>Exceptions\<close>

text \<open>
  An exception of class \<^verbatim>\<open>Exception\<close> is seen by the handler through
  \<^verbatim>\<open>type(e).__name__\<close> and \<^verbatim>\<open>str(e)\<close> only. \<^verbatim>\<open>sys.exit(n)\<close> raises \<^verbatim>\<open>SystemExit\<close>, which is
  not of class \<^verbatim>\<open>Exception\<close>.
\<close>

datatype exn = Exn (exn_type: pystr) (exn_str: pystr)

datatype raised = Exception exn | SystemExit int

definition ValueError :: "string \<Rightarrow> exn" where
  "ValueError msg = Exn (py ''ValueError'') (py msg)"

text \<open>Looking up a method the value's type does not have.\<close>

definition AttributeError :: "pyval \<Rightarrow> string \<Rightarrow> exn" where
  "AttributeError obj attr =
     Exn (py ''AttributeError'')
       (py [CHR 0x27] @ type_name obj @ py [CHR 0x27] @ py '' object has no attribute ''
          @ py [CHR 0x27] @ py attr @ py [CHR 0x27])"

text \<open>What \<^verbatim>\<open>json.dump\<close> raises on an object of a type it has no encoding for.\<close>

definition not_serializable :: "pystr \<Rightarrow> exn" where
  "not_serializable tname =
     Exn (py ''TypeError'') (py ''Object of type '' @ tname @ py '' is not JSON serializable'')"

subsection \<open>Built-in methods the program calls\<close>

text \<open>\<^verbatim>\<open>obj.get(key, default)\<close>: of the values above only a \<^verbatim>\<open>dict\<close> has the method.\<close>

fun get_method :: "pyval \<Rightarrow> pystr \<Rightarrow> pyval \<Rightarrow> exn + pyval" where
  "get_method (PDict kvs) key dflt =
     Inr (case map_of kvs key of Some v \<Rightarrow> v | None \<Rightarrow> dflt)"
| "get_method obj key dflt = Inl (AttributeError obj ''get'')"

text \<open>\<^verbatim>\<open>str.isspace\<close> on one code point: the Unicode white space characters.\<close>

definition isspace :: "nat \<Rightarrow> bool" where
  "isspace c \<longleftrightarrow>
     (9 \<le> c \<and> c \<le> 13) \<or> (28 \<le> c \<and> c \<le> 32) \<or> c = 0x85 \<or> c = 0xA0 \<or> c = 0x1680
     \<or> (0x2000 \<le> c \<and> c \<le> 0x200A) \<or> c = 0x2028 \<or> c = 0x2029 \<or> c = 0x202F
     \<or> c = 0x205F \<or> c = 0x3000"

text \<open>\<^verbatim>\<open>s.strip()\<close> removes white space at both ends.\<close>

definition strip :: "pystr \<Rightarrow> pystr" where
  "strip s = rev (dropWhile isspace (rev (dropWhile isspace s)))"

text \<open>\<^verbatim>\<open>obj.strip()\<close>: of the values above only a \<^verbatim>\<open>str\<close> has the method.\<close>

fun strip_method :: "pyval \<Rightarrow> exn + pyval" where
  "strip_method (PStr s) = Inr (PStr (strip s))"
| "strip_method obj = Inl (AttributeError obj ''strip'')"

text \<open>\<^verbatim>\<open>d[k] = v\<close>: an existing key keeps its place, a new key goes to the end.\<close>

fun setitem :: "(pystr \<times> 'v) list \<Rightarrow> pystr \<Rightarrow> 'v \<Rightarrow> (pystr \<times> 'v) list" where
  "setitem [] k v = [(k, v)]"
| "setitem ((k', v') # d) k v = (if k' = k then (k, v) # d else (k', v') # setitem d k v)"

subsection \<open>The textstat library\<close>

text \<open>
  The library's entry points the program uses, each with the keyword argument the program
  passes. The library itself is a parameter: a function from the call and its text argument to
  an exception or an object. The object is a value of the types above or an object of some
  other type, of which only the name of its type matters here.
\<close>

datatype textstat_call =
    flesch_reading_ease
  | flesch_kincaid_grade
  | gunning_fog
  | smog_index
  | automated_readability_index
  | coleman_liau_index
  | linsear_write_formula
  | dale_chall_readability_score
  | difficult_words
  | text_standard (float_output: bool)
  | reading_time (ms_per_char: pyfloat)
  | syllable_count
  | lexicon_count (removepunct: bool)
  | sentence_count
  | char_count (ignore_spaces: bool)
  | letter_count (ignore_spaces: bool)
  | polysyllabcount
  | monosyllabcount

datatype pyobj = JSON pyval | Opaque pystr

type_synonym textstat = "textstat_call \<Rightarrow> pyval \<Rightarrow> exn + pyobj"

subsection \<open>json.dump\<close>

text \<open>
  Standard output is the sequence of JSON tokens written to it. A number token stands for the
  text \<^verbatim>\<open>int.__repr__\<close> or \<^verbatim>\<open>float.__repr__\<close> gives; for a float that is not finite that
  text is \<^verbatim>\<open>NaN\<close>, \<^verbatim>\<open>Infinity\<close> or \<^verbatim>\<open>-Infinity\<close>, which \<^verbatim>\<open>json.dump\<close> writes by default.
\<close>

datatype token =
    LBrace | RBrace | LBracket | RBracket | Comma | Colon
  | TNull | TBool bool | TInt int | TFloat pyfloat | TStr pystr

text \<open>
  The limits of the interpreter the encoder can run into: \<open>int_repr_error n\<close> is the
  \<^verbatim>\<open>ValueError\<close> of \<^verbatim>\<open>int.__repr__\<close> when \<open>n\<close> has more digits than the limit on integer string
  conversion allows; \<open>nesting_error d\<close> is the \<^verbatim>\<open>RecursionError\<close> on entering a container that
  lies \<open>d\<close> levels below the dumped object.
\<close>

record interp =
  int_repr_error :: "int \<Rightarrow> exn option"
  nesting_error :: "nat \<Rightarrow> exn option"

text \<open>
  \<^verbatim>\<open>json.dump\<close> writes the chunks of the encoder one by one, so an exception of the encoder
  leaves the chunks before it on standard output. An encoding is the tokens written and the
  exception that ended it, if any.
\<close>

type_synonym chunks = "token list \<times> exn option"

definition wrote :: "token list \<Rightarrow> chunks \<Rightarrow> chunks" where
  "wrote ts r = (ts @ fst r, snd r)"

definition and_then :: "chunks \<Rightarrow> chunks \<Rightarrow> chunks" where
  "and_then r k = (case snd r of None \<Rightarrow> (fst r @ fst k, snd k) | Some e \<Rightarrow> r)"

text \<open>The text of a value that is no container; \<open>None\<close> for a container.\<close>

fun scalar :: "interp \<Rightarrow> pyval \<Rightarrow> (exn + token) option" where
  "scalar ip (PStr s) = Some (Inr (TStr s))"
| "scalar ip PNone = Some (Inr TNull)"
| "scalar ip (PBool b) = Some (Inr (TBool b))"
| "scalar ip (PInt n) =
     Some (case int_repr_error ip n of Some e \<Rightarrow> Inl e | None \<Rightarrow> Inr (TInt n))"
| "scalar ip (PFloat f) = Some (Inr (TFloat f))"
| "scalar ip (PList xs) = None"
| "scalar ip (PDict kvs) = None"

text \<open>
  The encoder. In a list the bracket or comma before an element is one chunk with the
  element's text when the element is no container, so it is not written when that text
  cannot be made; in a dictionary the key and the colon are chunks of their own.
\<close>

fun iterencode :: "interp \<Rightarrow> nat \<Rightarrow> pyval \<Rightarrow> chunks"
  and iterencode_list :: "interp \<Rightarrow> nat \<Rightarrow> token list \<Rightarrow> pyval list \<Rightarrow> chunks"
  and iterencode_dict :: "interp \<Rightarrow> nat \<Rightarrow> token list \<Rightarrow> (pystr \<times> pyval) list \<Rightarrow> chunks"
  where
  "iterencode ip d (PList xs) =
     (case nesting_error ip d of
        Some e \<Rightarrow> ([], Some e)
      | None \<Rightarrow> if xs = [] then ([LBracket, RBracket], None)
                else iterencode_list ip d [LBracket] xs)"
| "iterencode ip d (PDict kvs) =
     (case nesting_error ip d of
        Some e \<Rightarrow> ([], Some e)
      | None \<Rightarrow> wrote [LBrace] (iterencode_dict ip d [] kvs))"
| "iterencode ip d (PStr s) = ([TStr s], None)"
| "iterencode ip d PNone = ([TNull], None)"
| "iterencode ip d (PBool b) = ([TBool b], None)"
| "iterencode ip d (PInt n) =
     (case int_repr_error ip n of Some e \<Rightarrow> ([], Some e) | None \<Rightarrow> ([TInt n], None))"
| "iterencode ip d (PFloat f) = ([TFloat f], None)"
| "iterencode_list ip d buf [] = ([RBracket], None)"
| "iterencode_list ip d buf (x # xs) =
     (case scalar ip x of
        Some (Inl e) \<Rightarrow> ([], Some e)
      | Some (Inr t) \<Rightarrow> wrote (buf @ [t]) (iterencode_list ip d [Comma] xs)
      | None \<Rightarrow>
          wrote buf (and_then (iterencode ip (Suc d) x) (iterencode_list ip d [Comma] xs)))"
| "iterencode_dict ip d sep [] = ([RBrace], None)"
| "iterencode_dict ip d sep ((k, v) # kvs) =
     wrote (sep @ [TStr k, Colon])
       (and_then (iterencode ip (Suc d) v) (iterencode_dict ip d [Comma] kvs))"

text \<open>
  The two objects the program dumps are dictionaries whose values are objects of the library
  or strings.
\<close>

fun encode_obj :: "interp \<Rightarrow> pyobj \<Rightarrow> chunks" where
  "encode_obj ip (JSON v) = iterencode ip 1 v"
| "encode_obj ip (Opaque tname) = ([], Some (not_serializable tname))"

fun dump_items :: "interp \<Rightarrow> token list \<Rightarrow> (pystr \<times> pyobj) list \<Rightarrow> chunks" where
  "dump_items ip sep [] = ([RBrace], None)"
| "dump_items ip sep ((k, v) # kvs) =
     wrote (sep @ [TStr k, Colon]) (and_then (encode_obj ip v) (dump_items ip [Comma] kvs))"

subsection \<open>The process\<close>

text \<open>
  What a run leaves behind: the tokens written to standard output, in order, and (as a
  record of the run, not a variable of the program) the library calls made.
\<close>

record world =
  stdout :: "token list"
  calls :: "(textstat_call \<times> pyval) list"

text \<open>\<^verbatim>\<open>json.dump(obj, sys.stdout)\<close>: the exception it raises, if any, and the world after it.\<close>

definition json_dump :: "interp \<Rightarrow> (pystr \<times> pyobj) list \<Rightarrow> world \<Rightarrow> exn option \<times> world" where
  "json_dump ip obj w =
     (case wrote [LBrace] (dump_items ip [] obj) of
        (ts, r) \<Rightarrow> (r, w\<lparr>stdout := stdout w @ ts\<rparr>))"

definition invoke :: "textstat_call \<Rightarrow> pyval \<Rightarrow> world \<Rightarrow> world" where
  "invoke c s w = w\<lparr>calls := calls w @ [(c, s)]\<rparr>"

subsection \<open>analyze\_text\<close>

text \<open>The dictionary display of lines 19 to 39: key and call, in source order.\<close>

definition results_display :: "(pystr \<times> textstat_call) list" where
  "results_display =
    [(py ''flesch_reading_ease'', flesch_reading_ease),
     (py ''flesch_kincaid_grade'', flesch_kincaid_grade),
     (py ''gunning_fog'', gunning_fog),
     (py ''smog_index'', smog_index),
     (py ''automated_readability_index'', automated_readability_index),
     (py ''coleman_liau_index'', coleman_liau_index),
     (py ''linsear_write_formula'', linsear_write_formula),
     (py ''dale_chall_readability_score'', dale_chall_readability_score),
     (py ''difficult_words'', difficult_words),
     (py ''linsear_write_formula'', linsear_write_formula),
     (py ''text_standard'', text_standard False),
     (py ''reading_time'', reading_time (Finite (1469 / 100))),
     (py ''syllable_count'', syllable_count),
     (py ''lexicon_count'', lexicon_count True),
     (py ''sentence_count'', sentence_count),
     (py ''char_count'', char_count True),
     (py ''letter_count'', letter_count True),
     (py ''polysyllabcount'', polysyllabcount),
     (py ''monosyllabcount'', monosyllabcount)]"

text \<open>
  Evaluating a dictionary display: the entries left to right, each value stored under its
  key; the first call that raises ends the evaluation.
\<close>

fun dict_display ::
  "textstat \<Rightarrow> pyval \<Rightarrow> (pystr \<times> textstat_call) list \<Rightarrow> (pystr \<times> pyobj) list \<Rightarrow> world
     \<Rightarrow> (exn + (pystr \<times> pyobj) list) \<times> world" where
  "dict_display ts s [] d w = (Inr d, w)"
| "dict_display ts s ((k, c) # es) d w =
     (case ts c s of
        Inl e \<Rightarrow> (Inl e, invoke c s w)
      | Inr v \<Rightarrow> dict_display ts s es (setitem d k v) (invoke c s w))"

definition analyze_text ::
  "textstat \<Rightarrow> pyval \<Rightarrow> world \<Rightarrow> (exn + (pystr \<times> pyobj) list) \<times> world" where
  "analyze_text ts text w =
     (if \<not> truthy text then (Inl (ValueError ''Text cannot be empty''), w)
      else case strip_method text of
        Inl e \<Rightarrow> (Inl e, w)
      | Inr stripped \<Rightarrow>
          if \<not> truthy stripped then (Inl (ValueError ''Text cannot be empty''), w)
          else dict_display ts text results_display [] w)"

subsection \<open>main\<close>

text \<open>
  The argument \<open>loaded\<close> is what \<^verbatim>\<open>json.load(sys.stdin)\<close> does on the bytes of standard
  input: \<open>Inl e\<close> when it raises \<open>e\<close> (bytes that are not UTF-8, text that is not JSON),
  \<open>Inr v\<close> when it returns the decoded value \<open>v\<close>.
\<close>

definition error_output :: "exn \<Rightarrow> (pystr \<times> pyobj) list" where
  "error_output e =
     [(py ''error'', JSON (PStr (exn_str e))), (py ''type'', JSON (PStr (exn_type e)))]"

text \<open>
  The body of the \<^verbatim>\<open>try\<close>: it ends in \<^verbatim>\<open>sys.exit(0)\<close> or in an exception, which may be one
  of \<^verbatim>\<open>json.dump\<close> after part of the results has been written.
\<close>

definition try_body :: "interp \<Rightarrow> textstat \<Rightarrow> exn + pyval \<Rightarrow> world \<Rightarrow> raised \<times> world" where
  "try_body ip ts loaded w =
     (case loaded of
        Inl e \<Rightarrow> (Exception e, w)
      | Inr input_data \<Rightarrow>
          (case get_method input_data (py ''text'') (PStr []) of
             Inl e \<Rightarrow> (Exception e, w)
           | Inr text \<Rightarrow>
               if \<not> truthy text
               then (Exception (ValueError ''No text provided in input JSON''), w)
               else (case analyze_text ts text w of
                       (Inl e, w') \<Rightarrow> (Exception e, w')
                     | (Inr results, w') \<Rightarrow>
                         (case json_dump ip results w' of
                            (Some e, w'') \<Rightarrow> (Exception e, w'')
                          | (None, w'') \<Rightarrow> (SystemExit 0, w'')))))"

text \<open>\<^verbatim>\<open>except Exception as e\<close> catches what is of class \<^verbatim>\<open>Exception\<close> and lets
  \<^verbatim>\<open>SystemExit\<close> pass; an exception of the handler's own \<^verbatim>\<open>json.dump\<close> would leave \<^verbatim>\<open>main\<close>.\<close>

definition main :: "interp \<Rightarrow> textstat \<Rightarrow> exn + pyval \<Rightarrow> world \<Rightarrow> raised \<times> world" where
  "main ip ts loaded w =
     (case try_body ip ts loaded w of
        (Exception e, w') \<Rightarrow>
          (case json_dump ip (error_output e) w' of
             (Some e', w'') \<Rightarrow> (Exception e', w'')
           | (None, w'') \<Rightarrow> (SystemExit 1, w''))
      | (SystemExit n, w') \<Rightarrow> (SystemExit n, w'))"

text \<open>
  How the interpreter ends: \<^verbatim>\<open>SystemExit\<close> gives its exit status; an exception nobody
  caught prints a traceback and gives status 1.
\<close>

datatype ending = Exit int | Traceback exn

record outcome =
  written :: "token list"
  status :: ending
  library_calls :: "(textstat_call \<times> pyval) list"

definition run :: "interp \<Rightarrow> textstat \<Rightarrow> exn + pyval \<Rightarrow> outcome" where
  "run ip ts loaded =
     (case main ip ts loaded \<lparr>stdout = [], calls = []\<rparr> of
        (SystemExit n, w) \<Rightarrow> \<lparr>written = stdout w, status = Exit n, library_calls = calls w\<rparr>
      | (Exception e, w) \<Rightarrow> \<lparr>written = stdout w, status = Traceback e, library_calls = calls w\<rparr>)"

subsection \<open>What the claims speak about\<close>

text \<open>The 18 metric names of the specification, in its order.\<close>

definition metric_keys :: "pystr list" where
  "metric_keys = map py
    [''flesch_reading_ease'', ''flesch_kincaid_grade'', ''gunning_fog'', ''smog_index'',
     ''automated_readability_index'', ''coleman_liau_index'', ''linsear_write_formula'',
     ''dale_chall_readability_score'', ''difficult_words'', ''text_standard'', ''reading_time'',
     ''syllable_count'', ''lexicon_count'', ''sentence_count'', ''char_count'', ''letter_count'',
     ''polysyllabcount'', ''monosyllabcount'']"

text \<open>
  The named slots of the specification, each with the value \<open>f\<close> gives for the library call
  that fills it, and the object of the metrics they make.
\<close>

abbreviation metric_members :: "(textstat_call \<Rightarrow> 'v) \<Rightarrow> (pystr \<times> 'v) list" where
  "metric_members f \<equiv>
    [(py ''flesch_reading_ease'', f flesch_reading_ease),
     (py ''flesch_kincaid_grade'', f flesch_kincaid_grade),
     (py ''gunning_fog'', f gunning_fog),
     (py ''smog_index'', f smog_index),
     (py ''automated_readability_index'', f automated_readability_index),
     (py ''coleman_liau_index'', f coleman_liau_index),
     (py ''linsear_write_formula'', f linsear_write_formula),
     (py ''dale_chall_readability_score'', f dale_chall_readability_score),
     (py ''difficult_words'', f difficult_words),
     (py ''text_standard'', f (text_standard False)),
     (py ''reading_time'', f (reading_time (Finite (1469 / 100)))),
     (py ''syllable_count'', f syllable_count),
     (py ''lexicon_count'', f (lexicon_count True)),
     (py ''sentence_count'', f sentence_count),
     (py ''char_count'', f (char_count True)),
     (py ''letter_count'', f (letter_count True)),
     (py ''polysyllabcount'', f polysyllabcount),
     (py ''monosyllabcount'', f monosyllabcount)]"


text \<open>The error envelope \<^verbatim>\<open>{"error": message, "type": category}\<close> as JSON text.\<close>

abbreviation error_envelope :: "pystr \<Rightarrow> pystr \<Rightarrow> token list" where
  "error_envelope message category \<equiv>
     [LBrace, TStr (py ''error''), Colon, TStr message, Comma,
      TStr (py ''type''), Colon, TStr category, RBrace]"



text \<open>Does a display compute one call under two different keys?\<close>

definition computed_under_two_keys :: "(pystr \<times> textstat_call) list \<Rightarrow> bool" where
  "computed_under_two_keys es =
     list_ex (\<lambda>e1. list_ex (\<lambda>e2. fst e1 \<noteq> fst e2 \<and> snd e1 = snd e2) es) es"




text \<open>An interpreter whose limits are never reached.\<close>

definition unlimited :: interp where
  "unlimited = \<lparr>int_repr_error = (\<lambda>n. None), nesting_error = (\<lambda>d. None)\<rparr>"

text \<open>The values of a library for the examples: every metric is a constant.\<close>

definition sample_value :: "textstat_call \<Rightarrow> pyval" where
  "sample_value c =
     (case c of
        text_standard fo \<Rightarrow> (if fo then PFloat (Finite 1) else PStr (py ''0th and 1st grade''))
      | difficult_words \<Rightarrow> PInt 0
      | syllable_count \<Rightarrow> PInt 1
      | lexicon_count rp \<Rightarrow> PInt 1
      | sentence_count \<Rightarrow> PInt 1
      | char_count sp \<Rightarrow> PInt 1
      | letter_count sp \<Rightarrow> PInt 1
      | polysyllabcount \<Rightarrow> PInt 0
      | monosyllabcount \<Rightarrow> PInt 1
      | _ \<Rightarrow> PFloat (Finite 0))"

definition sample_textstat :: textstat where
  "sample_textstat c t = Inr (JSON (sample_value c))"






section \<open>Properties\<close>

subsection \<open>Strings and built-ins\<close>

lemma py_eq_iff [simp]: "py a = py b \<longleftrightarrow> a = b"
  unfolding py_def by (rule inj_map_eq_map) (simp add: inj_on_def)

lemma py_Nil [simp]: "py [] = []" "py s = [] \<longleftrightarrow> s = []"
  by (auto simp: py_def)

lemma py_append [simp]: "py a @ py b = py (a @ b)" "py a @ py b @ cs = py (a @ b) @ cs"
  by (simp_all add: py_def)

lemma dropWhile_all: "(\<forall>x\<in>set (dropWhile P xs). P x) \<longleftrightarrow> (\<forall>x\<in>set xs. P x)"
  by (induction xs) auto

lemma strip_empty_iff: "strip s = [] \<longleftrightarrow> (\<forall>c\<in>set s. isspace c)"
  unfolding strip_def by (simp add: dropWhile_eq_Nil_conv dropWhile_all)

lemma falsy_values:
  "\<not> truthy v \<longleftrightarrow>
     v \<in> {PNone, PBool False, PInt 0, PFloat (Finite 0), PStr [], PList [], PDict []}"
  by (cases v) auto


subsection \<open>The encoder\<close>

lemma wrote_pair [simp]: "wrote ts (us, r) = (ts @ us, r)"
  by (simp add: wrote_def)

lemma and_then_pair [simp]:
  "and_then (ts, None) (us, r) = (ts @ us, r)" "and_then (ts, Some e) k = (ts, Some e)"
  by (simp_all add: and_then_def)




lemma json_dump_error_output:
  "json_dump ip (error_output e) w =
     (None, w\<lparr>stdout := stdout w @ error_envelope (exn_str e) (exn_type e)\<rparr>)"
  by (simp add: json_dump_def error_output_def wrote_def and_then_def)

subsection \<open>The dictionary display\<close>

lemma results_display_stored:
  "foldl (\<lambda>d e. setitem d (fst e) (g (snd e))) [] results_display = metric_members g"
  by (simp add: results_display_def)



lemma dict_display_cong:
  "\<forall>e\<in>set es. ts (snd e) t = ts' (snd e) t \<Longrightarrow>
   dict_display ts t es d w = dict_display ts' t es d w"
  by (induction es arbitrary: d w) (auto split: sum.splits)

lemma metric_keys_distinct: "distinct metric_keys \<and> length metric_keys = 18"
  by (simp add: metric_keys_def)

lemma metric_members_keys: "map fst (metric_members g) = metric_keys"
  by (simp add: metric_keys_def)



subsection \<open>Every path of a run\<close>

lemma run_load_error:
  "run ip ts (Inl e) =
     \<lparr>written = error_envelope (exn_str e) (exn_type e), status = Exit 1, library_calls = []\<rparr>"
  by (simp add: run_def main_def try_body_def json_dump_error_output)


lemma run_no_text:
  "map_of kvs (py ''text'') = None \<or> (\<exists>v. map_of kvs (py ''text'') = Some v \<and> \<not> truthy v) \<Longrightarrow>
   run ip ts (Inr (PDict kvs)) =
     \<lparr>written = error_envelope (py ''No text provided in input JSON'') (py ''ValueError''),
      status = Exit 1, library_calls = []\<rparr>"
  by (auto simp add: run_def main_def try_body_def json_dump_error_output ValueError_def)


lemma run_blank:
  "map_of kvs (py ''text'') = Some (PStr s) \<Longrightarrow> s \<noteq> [] \<Longrightarrow> \<forall>c\<in>set s. isspace c \<Longrightarrow>
   run ip ts (Inr (PDict kvs)) =
     \<lparr>written = error_envelope (py ''Text cannot be empty'') (py ''ValueError''),
      status = Exit 1, library_calls = []\<rparr>"
  by (simp add: run_def main_def try_body_def analyze_text_def json_dump_error_output
      strip_empty_iff ValueError_def)









lemma run_cong:
  assumes "\<forall>kvs t. loaded = Inr (PDict kvs) \<and> map_of kvs (py ''text'') = Some t \<longrightarrow>
             (\<forall>c\<in>set (map snd results_display). ts c t = ts' c t)"
  shows "run ip ts loaded = run ip ts' loaded"
proof -
  have "try_body ip ts loaded w = try_body ip ts' loaded w" for w
  proof (cases loaded)
    case (Inl e)
    then show ?thesis by (simp add: try_body_def)
  next
    case (Inr v)
    show ?thesis
    proof (cases v)
      case (PDict kvs)
      show ?thesis
      proof (cases "map_of kvs (py ''text'')")
        case None
        with Inr PDict show ?thesis by (simp add: try_body_def)
      next
        case (Some t)
        with assms Inr PDict have "\<forall>e\<in>set results_display. ts (snd e) t = ts' (snd e) t"
          by auto
        then have "analyze_text ts t w = analyze_text ts' t w"
          by (simp add: analyze_text_def dict_display_cong [where ts = ts and ts' = ts']
              split: sum.splits)
        with Inr PDict Some show ?thesis by (simp add: try_body_def)
      qed
    qed (simp_all add: Inr try_body_def)
  qed
  then show ?thesis by (simp add: run_def main_def)
qed

text \<open>The rate the program passes for the reading time is the literal of line 31.\<close>

lemma reading_time_slot:
  "map_of (foldl (\<lambda>d e. setitem d (fst e) (g (snd e))) [] results_display) (py ''reading_time'') =
     Some (g (reading_time (Finite (1469 / 100))))"
  by (simp add: results_display_stored)

subsection \<open>The example libraries\<close>





subsection \<open>The metrics of a text\<close>




subsection \<open>All or nothing\<close>




subsection \<open>Every run ends with an exit status\<close>




subsection \<open>Input that is not JSON\<close>

text \<open>
  C5: when standard input does not parse as JSON, that is when \<^verbatim>\<open>json.load\<close> raises \<open>e\<close>, the
  program writes the error envelope with the message \<^verbatim>\<open>str(e)\<close> under \<^verbatim>\<open>error\<close> and the
  class name of \<open>e\<close> under \<^verbatim>\<open>type\<close>, and exits with status 1.
\<close>

theorem parse_failure_envelope:
  "run ip ts (Inl e) =
     \<lparr>written = error_envelope (exn_str e) (exn_type e), status = Exit 1, library_calls = []\<rparr>"
  by (rule run_load_error)

theorem parse_failure_envelope_witness:
  "run unlimited sample_textstat
      (Inl (Exn (py ''JSONDecodeError'') (py ''Expecting value: line 1 column 1 (char 0)''))) =
     \<lparr>written = error_envelope (py ''Expecting value: line 1 column 1 (char 0)'')
                  (py ''JSONDecodeError''),
      status = Exit 1, library_calls = []\<rparr>"
  using parse_failure_envelope [of unlimited sample_textstat
      "Exn (py ''JSONDecodeError'') (py ''Expecting value: line 1 column 1 (char 0)'')"]
  by simp

subsection \<open>No text\<close>

text \<open>
  C10: for every input object in which the key \<^verbatim>\<open>text\<close> is absent or maps to a falsy
  value, the program writes the envelope with the message
  \<^verbatim>\<open>No text provided in input JSON\<close> and the type \<^verbatim>\<open>ValueError\<close>, exits with status 1, and
  has called no metric function of the library.
\<close>

theorem falsy_text_no_text_provided:
  assumes "map_of kvs (py ''text'') = None \<or>
           (\<exists>v. map_of kvs (py ''text'') = Some v \<and> \<not> truthy v)"
  shows "run ip ts (Inr (PDict kvs)) =
     \<lparr>written = error_envelope (py ''No text provided in input JSON'') (py ''ValueError''),
      status = Exit 1, library_calls = []\<rparr>"
  using assms by (rule run_no_text)

theorem falsy_text_no_text_provided_witness:
  "run unlimited sample_textstat (Inr (PDict [(py ''lang'', PStr (py ''en''))])) =
     \<lparr>written = error_envelope (py ''No text provided in input JSON'') (py ''ValueError''),
      status = Exit 1, library_calls = []\<rparr>
   \<and> run unlimited sample_textstat (Inr (PDict [(py ''text'', PList [])])) =
     \<lparr>written = error_envelope (py ''No text provided in input JSON'') (py ''ValueError''),
      status = Exit 1, library_calls = []\<rparr>"
proof -
  have absent: "map_of [(py ''lang'', PStr (py ''en''))] (py ''text'') = None \<or>
      (\<exists>v. map_of [(py ''lang'', PStr (py ''en''))] (py ''text'') = Some v \<and> \<not> truthy v)"
    by simp
  have falsy: "map_of [(py ''text'', PList [])] (py ''text'') = None \<or>
      (\<exists>v. map_of [(py ''text'', PList [])] (py ''text'') = Some v \<and> \<not> truthy v)"
    by simp
  from falsy_text_no_text_provided [OF absent] falsy_text_no_text_provided [OF falsy]
  show ?thesis by blast
qed

text \<open>
  C2, as stated, gives an empty \<^verbatim>\<open>text\<close> the message about empty text. The guard of
  \<^verbatim>\<open>main\<close> comes first: on \<^verbatim>\<open>{"text": ""}\<close> the message is the one about no text provided.
\<close>

theorem empty_text_message_counterexample:
  "run unlimited sample_textstat (Inr (PDict [(py ''text'', PStr [])])) =
     \<lparr>written = error_envelope (py ''No text provided in input JSON'') (py ''ValueError''),
      status = Exit 1, library_calls = []\<rparr>
   \<and> run unlimited sample_textstat (Inr (PDict [(py ''text'', PStr [])])) \<noteq>
     \<lparr>written = error_envelope (py ''Text cannot be empty'') (py ''ValueError''),
      status = Exit 1, library_calls = []\<rparr>"
  by (simp add: run_no_text)

text \<open>
  C2, amended: for every input whose \<^verbatim>\<open>text\<close> is a non-empty string of white space only,
  the message is \<^verbatim>\<open>Text cannot be empty\<close>; for every input whose \<^verbatim>\<open>text\<close> key is missing or
  maps to the empty string, the message is \<^verbatim>\<open>No text provided in input JSON\<close>; in all these
  cases the output is the error envelope with type \<^verbatim>\<open>ValueError\<close> and the exit status is 1.
\<close>

theorem blank_and_missing_text_errors:
  "(map_of kvs (py ''text'') = Some (PStr s) \<and> s \<noteq> [] \<and> (\<forall>c\<in>set s. isspace c) \<longrightarrow>
      run ip ts (Inr (PDict kvs)) =
        \<lparr>written = error_envelope (py ''Text cannot be empty'') (py ''ValueError''),
         status = Exit 1, library_calls = []\<rparr>)
   \<and> (map_of kvs (py ''text'') = None \<or> map_of kvs (py ''text'') = Some (PStr []) \<longrightarrow>
      run ip ts (Inr (PDict kvs)) =
        \<lparr>written = error_envelope (py ''No text provided in input JSON'') (py ''ValueError''),
         status = Exit 1, library_calls = []\<rparr>)"
  by (auto simp add: run_blank run_no_text)

theorem blank_and_missing_text_errors_witness:
  "run unlimited sample_textstat (Inr (PDict [(py ''text'', PStr (py '' ''))])) =
        \<lparr>written = error_envelope (py ''Text cannot be empty'') (py ''ValueError''),
         status = Exit 1, library_calls = []\<rparr>
   \<and> run unlimited sample_textstat (Inr (PDict [])) =
        \<lparr>written = error_envelope (py ''No text provided in input JSON'') (py ''ValueError''),
         status = Exit 1, library_calls = []\<rparr>"
proof -
  have blank: "map_of [(py ''text'', PStr (py '' ''))] (py ''text'') = Some (PStr (py '' ''))
      \<and> py '' '' \<noteq> [] \<and> (\<forall>c\<in>set (py '' ''). isspace c)"
    by (simp add: py_def isspace_def)
  have missing: "map_of [] (py ''text'') = None \<or> map_of [] (py ''text'') = Some (PStr [])"
    by simp
  from blank_and_missing_text_errors
    [of "[(py ''text'', PStr (py '' ''))]" "py '' ''" unlimited sample_textstat] blank
  have 1: "run unlimited sample_textstat (Inr (PDict [(py ''text'', PStr (py '' ''))])) =
        \<lparr>written = error_envelope (py ''Text cannot be empty'') (py ''ValueError''),
         status = Exit 1, library_calls = []\<rparr>"
    by blast
  from blank_and_missing_text_errors [of "[]" "[]" unlimited sample_textstat] missing
  have 2: "run unlimited sample_textstat (Inr (PDict [])) =
        \<lparr>written = error_envelope (py ''No text provided in input JSON'') (py ''ValueError''),
         status = Exit 1, library_calls = []\<rparr>"
    by blast
  from 1 2 show ?thesis by blast
qed

subsection \<open>One error category, one duplicated entry\<close>

text \<open>
  C8, as stated, has one metric computed under two different keys. No call of the display
  stands under two different keys.
\<close>

theorem one_call_two_keys_counterexample:
  "\<not> computed_under_two_keys results_display"
  by (simp add: computed_under_two_keys_def results_display_def)

text \<open>
  C8, amended: the missing key and the empty (or blank) text give the same error category,
  \<^verbatim>\<open>ValueError\<close>; and the display computes one metric, \<^verbatim>\<open>linsear_write_formula\<close>, twice under
  one and the same key, so that its 19 entries store 18 distinct keys.
\<close>

theorem same_error_type_and_duplicate_key:
  "(map_of kvs (py ''text'') = None \<longrightarrow>
      (\<exists>msg. written (run ip ts (Inr (PDict kvs))) = error_envelope msg (py ''ValueError'')))
   \<and> (map_of kvs (py ''text'') = Some (PStr s) \<and> (\<forall>c\<in>set s. isspace c) \<longrightarrow>
      (\<exists>msg. written (run ip ts (Inr (PDict kvs))) = error_envelope msg (py ''ValueError'')))
   \<and> filter (\<lambda>e. snd e = linsear_write_formula) results_display =
        [(py ''linsear_write_formula'', linsear_write_formula),
         (py ''linsear_write_formula'', linsear_write_formula)]
   \<and> length results_display = 19
   \<and> map fst (foldl (\<lambda>d e. setitem d (fst e) (f (snd e))) [] results_display) = metric_keys
   \<and> length metric_keys = 18 \<and> distinct metric_keys"
proof (intro conjI impI)
  assume "map_of kvs (py ''text'') = None"
  then show "\<exists>msg. written (run ip ts (Inr (PDict kvs))) = error_envelope msg (py ''ValueError'')"
    by (simp add: run_no_text)
next
  assume a: "map_of kvs (py ''text'') = Some (PStr s) \<and> (\<forall>c\<in>set s. isspace c)"
  show "\<exists>msg. written (run ip ts (Inr (PDict kvs))) = error_envelope msg (py ''ValueError'')"
  proof (cases "s = []")
    case True
    with a show ?thesis by (simp add: run_no_text)
  next
    case False
    with a show ?thesis by (simp add: run_blank)
  qed
next
  show "filter (\<lambda>e. snd e = linsear_write_formula) results_display =
        [(py ''linsear_write_formula'', linsear_write_formula),
         (py ''linsear_write_formula'', linsear_write_formula)]"
    by (simp add: results_display_def)
  show "length results_display = 19" by (simp add: results_display_def)
  show "map fst (foldl (\<lambda>d e. setitem d (fst e) (f (snd e))) [] results_display) = metric_keys"
    by (simp only: results_display_stored [of f] metric_members_keys)
  show "length metric_keys = 18" "distinct metric_keys" using metric_keys_distinct by simp_all
qed

theorem same_error_type_and_duplicate_key_witness:
  "written (run unlimited sample_textstat (Inr (PDict []))) =
     error_envelope (py ''No text provided in input JSON'') (py ''ValueError'')
   \<and> written (run unlimited sample_textstat (Inr (PDict [(py ''text'', PStr (py '' ''))]))) =
     error_envelope (py ''Text cannot be empty'') (py ''ValueError'')
   \<and> (\<exists>msg. written (run unlimited sample_textstat (Inr (PDict []))) =
         error_envelope msg (py ''ValueError''))
   \<and> (\<exists>msg. written (run unlimited sample_textstat (Inr (PDict [(py ''text'', PStr (py '' ''))]))) =
         error_envelope msg (py ''ValueError''))"
proof -
  have 1: "map_of [] (py ''text'') = None" by simp
  have 2: "map_of [(py ''text'', PStr (py '' ''))] (py ''text'') = Some (PStr (py '' ''))
     \<and> (\<forall>c\<in>set (py '' ''). isspace c)"
    by (simp add: py_def isspace_def)
  have a: "written (run unlimited sample_textstat (Inr (PDict []))) =
     error_envelope (py ''No text provided in input JSON'') (py ''ValueError'')"
    by (simp add: run_no_text)
  have b: "written (run unlimited sample_textstat (Inr (PDict [(py ''text'', PStr (py '' ''))]))) =
     error_envelope (py ''Text cannot be empty'') (py ''ValueError'')"
    using 2 by (simp add: run_blank)
  from same_error_type_and_duplicate_key [of "[]" unlimited sample_textstat "[]"] 1
  have c: "\<exists>msg. written (run unlimited sample_textstat (Inr (PDict []))) =
         error_envelope msg (py ''ValueError'')"
    by blast
  from same_error_type_and_duplicate_key
    [of "[(py ''text'', PStr (py '' ''))]" unlimited sample_textstat "py '' ''"] 2
  have d: "\<exists>msg. written (run unlimited sample_textstat (Inr (PDict [(py ''text'', PStr (py '' ''))]))) =
         error_envelope msg (py ''ValueError'')"
    by blast
  from a b c d show ?thesis by blast
qed

end
